theory Spec2Isabelle
  imports Main "HOL-Library.Word"
begin

section \<open>The external MQTT bridge of the core-command service\<close>

text \<open>
  The development embeds \<^verbatim>\<open>internal/core/command/controller/messaging/external.go\<close>:
  the two message handlers \<^verbatim>\<open>commandQueryHandler\<close> and \<^verbatim>\<open>commandRequestHandler\<close> and
  the publisher \<^verbatim>\<open>publishMessage\<close>. A handler returns nothing in Go; all it does is
  call the logger, its collaborators, the serializer and the broker client. The model of a
  handler therefore returns the list of these calls, in the order the code makes them.
\<close>

subsection \<open>Strings: \<^verbatim>\<open>strings.Split\<close>, \<^verbatim>\<open>strings.Join\<close>, \<^verbatim>\<open>strings.EqualFold\<close>\<close>

text \<open>
  A Go string is a sequence of bytes, here a \<^typ>\<open>string\<close> (a list of 8-bit characters).
  The source splits on the one-byte separator \<^verbatim>\<open>"/"\<close> only, so the separator of
  \<open>Split\<close> is a character. The result lists the stretches of the string between the
  separators: a byte other than the separator goes in front of the first stretch of the
  rest, a separator opens a new, empty stretch. As in Go, a string without the separator
  gives the one-element list of that string, and the empty string gives \<open>[[]]\<close>; the
  result is never empty, so the first branch of the \<open>case\<close> is never taken
  (lemma \<open>Split_not_Nil\<close>).
\<close>

type_synonym bytes = string

fun Split :: "string \<Rightarrow> char \<Rightarrow> string list" where
  "Split [] sep = [[]]"
| "Split (c # cs) sep =
     (if c = sep then [] # Split cs sep
      else (case Split cs sep of
              [] \<Rightarrow> [[c]]
            | level # levels \<Rightarrow> (c # level) # levels))"

fun Join :: "string list \<Rightarrow> string \<Rightarrow> string" where
  "Join [] sep = []"
| "Join [x] sep = x"
| "Join (x # y # ys) sep = x @ sep @ Join (y # ys) sep"

text \<open>
  \<^verbatim>\<open>strings.EqualFold(s, t)\<close> compares the two strings rune by rune under Unicode simple
  case folding. The source calls it with an ASCII second argument only (\<^verbatim>\<open>"get"\<close>,
  \<^verbatim>\<open>"set"\<close>, \<^verbatim>\<open>common.All\<close>), and the model is exact for such a \<open>t\<close>: an ASCII byte of
  \<open>s\<close> matches the byte of \<open>t\<close> that differs from it at most in case, and the only
  runes beyond ASCII that fold to an ASCII letter are U+017F (bytes C5 BF, folds to
  \<open>s\<close>) and U+212A (bytes E2 84 AA, folds to \<open>k\<close>). Every other byte of
  \<open>s\<close> from 0x80 on decodes to a rune that no ASCII character folds to.
\<close>

definition isUpper :: "char \<Rightarrow> bool" where
  "isUpper c = (of_char (CHR ''A'') \<le> (of_char c :: nat) \<and> (of_char c :: nat) \<le> of_char (CHR ''Z''))"

definition toLower :: "char \<Rightarrow> char" where
  "toLower c = (if isUpper c then char_of ((of_char c :: nat) + 32) else c)"

definition asciiFoldEq :: "char \<Rightarrow> char \<Rightarrow> bool" where
  "asciiFoldEq sr tr =
     ((of_char sr :: nat) < 128 \<and> (of_char tr :: nat) < 128 \<and> toLower sr = toLower tr)"

fun EqualFold :: "string \<Rightarrow> string \<Rightarrow> bool" where
  "EqualFold [] [] = True"
| "EqualFold [] (tr # t) = False"
| "EqualFold (sr # s) [] = False"
| "EqualFold (sr # s) (tr # t) =
     (if asciiFoldEq sr tr then EqualFold s t
      else (case sr # s of
              b0 # b1 # s' \<Rightarrow>
                if b0 = CHR 0xC5 \<and> b1 = CHR 0xBF \<and> toLower tr = CHR ''s'' then EqualFold s' t
                else (case s' of
                        b2 # s'' \<Rightarrow>
                          b0 = CHR 0xE2 \<and> b1 = CHR 0x84 \<and> b2 = CHR 0xAA
                          \<and> toLower tr = CHR ''k'' \<and> EqualFold s'' t
                      | [] \<Rightarrow> False)
            | _ \<Rightarrow> False))"

subsection \<open>Data\<close>

text \<open>
  Modelled from the spec: the struct \<^verbatim>\<open>types.MessageEnvelope\<close> is declared in the
  go-mod-messaging library, not in the source file. The fields are those of the spec's data
  model: the two opaque tokens, the error code (0 success, 1 error), the payload bytes, the
  query parameters, and the metadata that passes through (content type, API version).
\<close>

record MessageEnvelope =
  CorrelationID :: string
  ApiVersion :: string
  RequestID :: string
  ErrorCode :: int
  Payload :: bytes
  ContentType :: string
  QueryParams :: "string \<rightharpoonup> string"

text \<open>
  Modelled from the spec: \<^verbatim>\<open>types.NewMessageEnvelopeWithError\<close> is a function of
  go-mod-messaging. The spec fixes three fields of the envelope it builds: the request id
  it is given, \<open>ErrorCode = 1\<close>, and the message as payload. What the library puts into the
  other fields (a fresh correlation id, its own version and content type) is the
  parameter \<open>blank\<close>.
\<close>

definition NewMessageEnvelopeWithError :: "MessageEnvelope \<Rightarrow> string \<Rightarrow> string \<Rightarrow> MessageEnvelope" where
  "NewMessageEnvelopeWithError blank requestId errorMessage =
     blank\<lparr>RequestID := requestId, ErrorCode := 1, Payload := errorMessage\<rparr>"

text \<open>An \<^verbatim>\<open>mqtt.Message\<close>, as far as the handlers read it: \<^verbatim>\<open>Topic()\<close> and \<^verbatim>\<open>Payload()\<close>.\<close>

record Message =
  Topic :: string
  MessagePayload :: bytes

text \<open>
  The keys of the topic maps are string constants of go-mod-core-contracts; their values
  are not in the source, and the model keeps them symbolic. \<open>common_All\<close> is the constant
  \<^verbatim>\<open>common.All\<close> of the same library, the device name that stands for every device
  (the name \<open>All\<close> itself is the universal quantifier of HOL).
\<close>

datatype topicKey =
    CommandQueryRequestTopicKey
  | CommandRequestTopicKey
  | ExternalCommandQueryResponseTopicKey
  | ExternalCommandResponseTopicPrefixKey
  | DeviceCommandRequestTopicPrefixKey

definition common_All :: string where
  "common_All = ''all''"

type_synonym byte = "8 word"
type_synonym Duration = "64 word"
type_synonym error = string

record ExternalMQTTInfo =
  Topics :: "topicKey \<rightharpoonup> string"
  QoS :: byte
  Retain :: bool

record MessageBusInfo =
  BusTopics :: "topicKey \<rightharpoonup> string"

record ConfigurationStruct =
  ExternalMQTT :: ExternalMQTTInfo
  MessageBus :: MessageBusInfo

text \<open>Reading a Go \<^verbatim>\<open>map[string]string\<close> at a key it does not hold gives the empty string.\<close>

definition lookupTopic :: "(topicKey \<rightharpoonup> string) \<Rightarrow> topicKey \<Rightarrow> string" where
  "lookupTopic topics key = (case topics key of None \<Rightarrow> [] | Some topic \<Rightarrow> topic)"

text \<open>
  What a handler is given beyond the message: the configuration, and the functions it calls
  that are not in the source file. A Go result pair \<^verbatim>\<open>(value, err)\<close> is a sum, \<open>Inl\<close>
  the error, and an error is the text of its \<^verbatim>\<open>Error()\<close>, the only thing the handlers
  read of it. \<open>jsonMarshal\<close> keeps both components of the pair, since the publisher reads the
  bytes and drops the error. \<open>Publish\<close> is the error of the token once \<^verbatim>\<open>Wait()\<close> has
  returned, \<open>None\<close> when the broker accepted the message. \<open>Request\<close> gives an error or
  a response: the handler reads the response without a test for \<^verbatim>\<open>nil\<close> once the error
  is \<^verbatim>\<open>nil\<close>. \<open>blankErrorEnvelope\<close> holds the fields of a new error envelope that
  the handler does not choose.
\<close>

record Environment =
  Configuration :: ConfigurationStruct
  NewMessageEnvelopeFromJSON :: "bytes \<Rightarrow> error + MessageEnvelope"
  blankErrorEnvelope :: MessageEnvelope
  jsonMarshal :: "MessageEnvelope \<Rightarrow> bytes \<times> error option"
  getCommandQueryResponseEnvelope :: "MessageEnvelope \<Rightarrow> string \<Rightarrow> error + MessageEnvelope"
  validateRequestTopic :: "string \<Rightarrow> string \<Rightarrow> string \<Rightarrow> string \<Rightarrow> error + string \<times> string"
  validateGetCommandQueryParameters :: "(string \<rightharpoonup> string) \<Rightarrow> error option"
  Request :: "MessageEnvelope \<Rightarrow> string \<Rightarrow> string \<Rightarrow> Duration \<Rightarrow> error + MessageEnvelope"
  Publish :: "string \<Rightarrow> byte \<Rightarrow> bool \<Rightarrow> bytes \<Rightarrow> error option"

subsection \<open>The calls a handler makes\<close>

datatype logArg = Str string | Num nat

datatype logCall =
    Debugf string "logArg list"
  | Errorf string "logArg list"
  | Warn string
  | Error string

datatype event =
    Log logCall
  | QueryCall MessageEnvelope string
  | ValidateRequestTopicCall string string string string
  | ValidateQueryParametersCall "string \<rightharpoonup> string"
  | RequestCall MessageEnvelope string string Duration
  | MarshalCall MessageEnvelope
  | PublishCall string byte bool bytes
  | Panic

subsection \<open>\<^verbatim>\<open>publishMessage\<close>\<close>

definition publishMessage :: "Environment \<Rightarrow> string \<Rightarrow> byte \<Rightarrow> bool \<Rightarrow> MessageEnvelope \<Rightarrow> event list" where
  "publishMessage env responseTopic qos retain message =
     (if ErrorCode message = 1 then [Log (Error (Payload message))] else []) @
     (let envelopeBytes = fst (jsonMarshal env message) in
        [MarshalCall message, PublishCall responseTopic qos retain envelopeBytes] @
        (case Publish env responseTopic qos retain envelopeBytes of
           Some err \<Rightarrow>
             [Log (Errorf ''Could not publish to external message broker on topic '%s': %s''
                     [Str responseTopic, Str err])]
         | None \<Rightarrow>
             [Log (Debugf ''Published response message to external message broker on topic '%s' with %d bytes''
                     [Str responseTopic, Num (length envelopeBytes)])]))"

subsection \<open>\<^verbatim>\<open>commandQueryHandler\<close>\<close>

text \<open>
  Lines 70 to 74: the device name is the last topic level, replaced by \<open>common_All\<close>
  when it is that word in any casing. Go panics when an index is out of range; the index
  \<^verbatim>\<open>len(topicLevels)-1\<close> is an \<^verbatim>\<open>int\<close> and nothing in the handler checks it, so the
  model computes it in \<^typ>\<open>int\<close> and returns \<open>None\<close> for the panic.
\<close>

definition index :: "'a list \<Rightarrow> int \<Rightarrow> 'a option" where
  "index xs i = (if 0 \<le> i \<and> i < int (length xs) then Some (xs ! nat i) else None)"

definition queryDeviceName :: "string \<Rightarrow> string option" where
  "queryDeviceName topic =
     (let topicLevels = Split topic (CHR ''/'') in
      case index topicLevels (int (length topicLevels) - 1) of
        None \<Rightarrow> None
      | Some deviceName \<Rightarrow> Some (if EqualFold deviceName common_All then common_All else deviceName))"

definition notPublishing :: string where
  "notPublishing = ''Not publishing error message back due to insufficient information on response topic''"

definition commandQueryHandler :: "Environment \<Rightarrow> Message \<Rightarrow> event list" where
  "commandQueryHandler env message =
     Log (Debugf ''Received command query request from external message broker on topic '%s' with %d bytes''
            [Str (Topic message), Num (length (MessagePayload message))]) #
     (case NewMessageEnvelopeFromJSON env (MessagePayload message) of
        Inl err \<Rightarrow>
          [Log (Errorf ''Failed to decode request MessageEnvelope: %s'' [Str err]),
           Log (Warn notPublishing)]
      | Inr requestEnvelope \<Rightarrow>
          (let externalMQTTInfo = ExternalMQTT (Configuration env);
               responseTopic = lookupTopic (Topics externalMQTTInfo) ExternalCommandQueryResponseTopicKey
           in
           if responseTopic = [] then
             [Log (Error ''QueryResponseTopic not provided in External.Topics''),
              Log (Warn notPublishing)]
           else
             (case queryDeviceName (Topic message) of
                None \<Rightarrow> [Panic]
              | Some deviceName \<Rightarrow>
                  QueryCall requestEnvelope deviceName #
                  (let responseEnvelope =
                         (case getCommandQueryResponseEnvelope env requestEnvelope deviceName of
                            Inl err \<Rightarrow>
                              NewMessageEnvelopeWithError (blankErrorEnvelope env)
                                (RequestID requestEnvelope) err
                          | Inr responseEnvelope \<Rightarrow> responseEnvelope);
                       qos = QoS externalMQTTInfo;
                       retain = Retain externalMQTTInfo
                   in publishMessage env responseTopic qos retain responseEnvelope))))"

subsection \<open>\<^verbatim>\<open>commandRequestHandler\<close>\<close>

text \<open>
  Lines 103 to 114: the topic levels of a command request. \<open>None\<close> is the early return of
  line 108. The three indices are read only after the check of line 105, which keeps them
  in range.
\<close>

definition commandTopicLevels :: "string \<Rightarrow> (string \<times> string \<times> string) option" where
  "commandTopicLevels topic =
     (let topicLevels = Split topic (CHR ''/'');
          length = length topicLevels
      in
      if length < 3 then None
      else Some (topicLevels ! (length - 3), topicLevels ! (length - 2), topicLevels ! (length - 1)))"

text \<open>
  The message of line 145 is \<^verbatim>\<open>fmt.Sprintf\<close> of a text ending in \<^verbatim>\<open>%v\<close> at an error:
  the text followed by the error's own message.
\<close>

definition requestFailed :: "error \<Rightarrow> string" where
  "requestFailed err = ''Failed to send DeviceCommand request with internal MessageBus: '' @ err"

definition commandRequestHandler :: "Duration \<Rightarrow> Environment \<Rightarrow> Message \<Rightarrow> event list" where
  "commandRequestHandler requestTimeout env message =
     Log (Debugf ''Received command request from external message broker on topic '%s' with %d bytes''
            [Str (Topic message), Num (length (MessagePayload message))]) #
     (let externalMQTTInfo = ExternalMQTT (Configuration env);
          qos = QoS externalMQTTInfo;
          retain = Retain externalMQTTInfo
      in
      case NewMessageEnvelopeFromJSON env (MessagePayload message) of
        Inl err \<Rightarrow>
          [Log (Errorf ''Failed to decode request MessageEnvelope: %s'' [Str err]),
           Log (Warn notPublishing)]
      | Inr requestEnvelope \<Rightarrow>
          (case commandTopicLevels (Topic message) of
             None \<Rightarrow>
               [Log (Error ''Failed to parse and construct response topic scheme, expected request topic scheme: '#/<device-name>/<command-name>/<method>''),
                Log (Warn notPublishing)]
           | Some (deviceName, commandName, method) \<Rightarrow>
               if \<not> EqualFold method ''get'' \<and> \<not> EqualFold method ''set'' then
                 [Log (Errorf ''Unknown request method: %s, only 'get' or 'set' is allowed'' [Str method]),
                  Log (Warn notPublishing)]
               else
                 (let externalResponseTopic =
                        Join [lookupTopic (Topics externalMQTTInfo) ExternalCommandResponseTopicPrefixKey,
                              deviceName, commandName, method] ''/'';
                      internalMessageBusInfo = MessageBus (Configuration env);
                      requestTopicPrefix =
                        lookupTopic (BusTopics internalMessageBusInfo) DeviceCommandRequestTopicPrefixKey
                  in
                  ValidateRequestTopicCall requestTopicPrefix deviceName commandName method #
                  (case validateRequestTopic env requestTopicPrefix deviceName commandName method of
                     Inl err \<Rightarrow>
                       publishMessage env externalResponseTopic qos retain
                         (NewMessageEnvelopeWithError (blankErrorEnvelope env) (RequestID requestEnvelope) err)
                   | Inr (deviceServiceName, deviceRequestTopic) \<Rightarrow>
                       ValidateQueryParametersCall (QueryParams requestEnvelope) #
                       (case validateGetCommandQueryParameters env (QueryParams requestEnvelope) of
                          Some err \<Rightarrow>
                            publishMessage env externalResponseTopic qos retain
                              (NewMessageEnvelopeWithError (blankErrorEnvelope env) (RequestID requestEnvelope) err)
                        | None \<Rightarrow>
                            Log (Debugf ''Sending Command request to internal MessageBus. Topic: %s, Request-id: %s Correlation-id: %s''
                                   [Str deviceRequestTopic, Str (RequestID requestEnvelope),
                                    Str (CorrelationID requestEnvelope)]) #
                            RequestCall requestEnvelope deviceServiceName deviceRequestTopic requestTimeout #
                            (case Request env requestEnvelope deviceServiceName deviceRequestTopic requestTimeout of
                               Inl err \<Rightarrow>
                                 (let errorMessage = requestFailed err in
                                  publishMessage env externalResponseTopic qos retain
                                    (NewMessageEnvelopeWithError (blankErrorEnvelope env)
                                       (RequestID requestEnvelope) errorMessage))
                             | Inr response \<Rightarrow>
                                 Log (Debugf ''Command response received from internal MessageBus. Topic: %s, Request-id: %s Correlation-id: %s''
                                        [Str (RequestID response), Str (CorrelationID response)]) #
                                 publishMessage env externalResponseTopic qos retain response))))))"

subsection \<open>Reading a trace\<close>

text \<open>
  The publish calls of a trace with their arguments, the envelopes handed to the
  serializer, and the device names handed to the command-query collaborator.
\<close>

fun publishCalls :: "event list \<Rightarrow> (string \<times> byte \<times> bool \<times> bytes) list" where
  "publishCalls [] = []"
| "publishCalls (PublishCall topic qos retain payload # evs) =
     (topic, qos, retain, payload) # publishCalls evs"
| "publishCalls (_ # evs) = publishCalls evs"

fun marshalCalls :: "event list \<Rightarrow> MessageEnvelope list" where
  "marshalCalls [] = []"
| "marshalCalls (MarshalCall message # evs) = message # marshalCalls evs"
| "marshalCalls (_ # evs) = marshalCalls evs"

fun queryCalls :: "event list \<Rightarrow> string list" where
  "queryCalls [] = []"
| "queryCalls (QueryCall requestEnvelope deviceName # evs) = deviceName # queryCalls evs"
| "queryCalls (_ # evs) = queryCalls evs"

fun validateQueryParametersCalls :: "event list \<Rightarrow> (string \<rightharpoonup> string) list" where
  "validateQueryParametersCalls [] = []"
| "validateQueryParametersCalls (ValidateQueryParametersCall params # evs) =
     params # validateQueryParametersCalls evs"
| "validateQueryParametersCalls (_ # evs) = validateQueryParametersCalls evs"

subsection \<open>A sample deployment\<close>

text \<open>
  A concrete environment on which the theorems below are run: the device \<open>sensor1\<close> is
  served by \<open>svcA\<close>, any other device is unknown; the sample decoder knows two payloads;
  the sample validator rejects a \<open>ds-returnevent\<close> parameter that is neither \<open>true\<close> nor
  \<open>false\<close>; the internal bus answers \<open>42\<close>, and times out when the time bound is zero.
\<close>

definition sampleRequest :: MessageEnvelope where
  "sampleRequest =
     \<lparr>CorrelationID = ''C1'', ApiVersion = ''v3'', RequestID = ''R1'', ErrorCode = 0,
      Payload = [], ContentType = ''application/json'', QueryParams = Map.empty\<rparr>"

definition sampleDecode :: "bytes \<Rightarrow> error + MessageEnvelope" where
  "sampleDecode payload =
     (if payload = ''{}'' then Inr sampleRequest
      else if payload = ''{q}'' then
        Inr (sampleRequest\<lparr>QueryParams := [''ds-returnevent'' \<mapsto> ''maybe'']\<rparr>)
      else Inl ''unexpected end of JSON input'')"

definition sampleValidateQueryParameters :: "(string \<rightharpoonup> string) \<Rightarrow> error option" where
  "sampleValidateQueryParameters params =
     (case params ''ds-returnevent'' of
        None \<Rightarrow> None
      | Some v \<Rightarrow> if v = ''true'' \<or> v = ''false'' then None else Some ''invalid query parameter'')"

definition sampleEnvironment :: Environment where
  "sampleEnvironment =
     \<lparr>Configuration =
        \<lparr>ExternalMQTT =
           \<lparr>Topics = [ExternalCommandQueryResponseTopicKey \<mapsto> ''query/response'',
                       ExternalCommandResponseTopicPrefixKey \<mapsto> ''command/response''],
            QoS = 1, Retain = False\<rparr>,
         MessageBus = \<lparr>BusTopics = [DeviceCommandRequestTopicPrefixKey \<mapsto> ''internal'']\<rparr>\<rparr>,
      NewMessageEnvelopeFromJSON = sampleDecode,
      blankErrorEnvelope =
        \<lparr>CorrelationID = ''C2'', ApiVersion = ''v3'', RequestID = [], ErrorCode = 0,
         Payload = [], ContentType = ''text/plain'', QueryParams = Map.empty\<rparr>,
      jsonMarshal = (\<lambda>message. (RequestID message @ '':'' @ Payload message, None)),
      getCommandQueryResponseEnvelope =
        (\<lambda>requestEnvelope deviceName. Inr (requestEnvelope\<lparr>Payload := deviceName\<rparr>)),
      validateRequestTopic =
        (\<lambda>prefix deviceName commandName method.
           if deviceName = ''sensor1''
           then Inr (''svcA'', Join [prefix, ''svcA'', deviceName, commandName, method] ''/'')
           else Inl ''device not found''),
      validateGetCommandQueryParameters = sampleValidateQueryParameters,
      Request =
        (\<lambda>requestEnvelope deviceServiceName deviceRequestTopic requestTimeout.
           if requestTimeout = 0 then Inl ''timed out''
           else Inr (requestEnvelope\<lparr>Payload := ''42''\<rparr>)),
      Publish = (\<lambda>topic qos retain payload. None)\<rparr>"

text \<open>
  The same deployment without any external topic in its configuration, and with a broker
  that refuses every message and a serializer that reports an error.
\<close>

definition sampleUnconfigured :: Environment where
  "sampleUnconfigured =
     sampleEnvironment\<lparr>Configuration :=
       \<lparr>ExternalMQTT = \<lparr>Topics = Map.empty, QoS = 1, Retain = False\<rparr>,
        MessageBus = \<lparr>BusTopics = [DeviceCommandRequestTopicPrefixKey \<mapsto> ''internal'']\<rparr>\<rparr>\<rparr>"

definition sampleBrokerDown :: Environment where
  "sampleBrokerDown =
     sampleEnvironment\<lparr>
       jsonMarshal := (\<lambda>message. ([], Some ''json: unsupported value'')),
       Publish := (\<lambda>topic qos retain payload. Some ''not connected'')\<rparr>"

section \<open>Properties\<close>

subsection \<open>Splitting and joining\<close>

lemma Split_not_Nil: "Split s sep \<noteq> []"
  by (induction s) (auto split: list.splits)

lemma length_Split: "length (Split s sep) = Suc (count_list s sep)"
  by (induction s) (auto simp: Split_not_Nil split: list.splits)

lemma Split_no_sep: "sep \<notin> set x \<Longrightarrow> Split x sep = [x]"
  by (induction x) auto

lemma Split_append: "Split (a @ sep # b) sep = Split a sep @ Split b sep"
  by (induction a) (auto simp: Split_not_Nil split: list.splits)

lemma Split_Join:
  "xs \<noteq> [] \<Longrightarrow> \<forall>x\<in>set xs. sep \<notin> set x \<Longrightarrow> Split (Join xs [sep]) sep = xs"
proof (induction xs "[sep]" rule: Join.induct)
  case 1
  then show ?case by simp
next
  case (2 x)
  then show ?case by (simp add: Split_no_sep)
next
  case (3 x y ys)
  then show ?case by (simp add: Split_append Split_no_sep)
qed

lemma takeWhile_no_sep: "sep \<notin> set s \<Longrightarrow> takeWhile (\<lambda>c. c \<noteq> sep) s = s"
  by (induction s) auto

text \<open>The last level of a topic is what follows its last separator, or the whole topic.\<close>

lemma last_Split: "last (Split s sep) = rev (takeWhile (\<lambda>c. c \<noteq> sep) (rev s))"
proof (cases "sep \<in> set s")
  case False
  then have "rev (takeWhile (\<lambda>c. c \<noteq> sep) (rev s)) = s"
    by (simp add: takeWhile_no_sep)
  moreover have "last (Split s sep) = s"
    by (simp add: Split_no_sep [OF False])
  ultimately show ?thesis by (rule ssubst)
next
  case True
  then obtain a b where s: "s = a @ sep # b" and b: "sep \<notin> set b"
    by (auto dest: split_list_last)
  have "takeWhile (\<lambda>c. c \<noteq> sep) (rev b @ sep # rev a) = rev b"
    using b by (subst takeWhile_append2) auto
  with s b show ?thesis by (simp add: Split_append Split_no_sep)
qed

lemma last3_exists: "3 \<le> length xs \<Longrightarrow> \<exists>pre d c m. xs = pre @ [d, c, m]"
proof -
  assume "3 \<le> length xs"
  define ys where "ys = drop (length xs - 3) xs"
  with \<open>3 \<le> length xs\<close> have "length ys = Suc (Suc (Suc 0))"
    by simp
  then obtain d c m where "ys = [d, c, m]"
    by (auto simp: length_Suc_conv)
  then have "xs = take (length xs - 3) xs @ [d, c, m]"
    unfolding ys_def by (metis append_take_drop_id)
  then show ?thesis by blast
qed

lemma index_last: "xs \<noteq> [] \<Longrightarrow> index xs (int (length xs) - 1) = Some (last xs)"
  by (cases xs rule: rev_cases) (auto simp: index_def nth_append)

lemma queryDeviceName_eq:
  "queryDeviceName topic =
     Some (if EqualFold (last (Split topic (CHR ''/''))) common_All then common_All
           else last (Split topic (CHR ''/'')))"
  by (simp add: queryDeviceName_def index_last Split_not_Nil)

lemma commandTopicLevels_last3:
  "Split topic (CHR ''/'') = pre @ [d, c, m] \<Longrightarrow> commandTopicLevels topic = Some (d, c, m)"
  by (simp add: commandTopicLevels_def nth_append)

lemma commandTopicLevels_short:
  "length (Split topic (CHR ''/'')) < 3 \<Longrightarrow> commandTopicLevels topic = None"
  by (simp add: commandTopicLevels_def)

subsection \<open>Traces\<close>

lemma publishCalls_publishMessage:
  "publishCalls (publishMessage env topic qos retain message) =
     [(topic, qos, retain, fst (jsonMarshal env message))]"
  by (simp add: publishMessage_def Let_def split: option.split)

lemma marshalCalls_publishMessage:
  "marshalCalls (publishMessage env topic qos retain message) = [message]"
  by (simp add: publishMessage_def Let_def split: option.split)

lemma queryCalls_publishMessage:
  "queryCalls (publishMessage env topic qos retain message) = []"
  by (simp add: publishMessage_def Let_def split: option.split)

lemma validateQueryParametersCalls_publishMessage:
  "validateQueryParametersCalls (publishMessage env topic qos retain message) = []"
  by (simp add: publishMessage_def Let_def split: option.split)

lemma Panic_publishMessage:
  "Panic \<notin> set (publishMessage env topic qos retain message)"
  by (simp add: publishMessage_def Let_def split: option.split)

subsection \<open>Case folding\<close>

text \<open>
  A lower-case ASCII letter other than \<open>s\<close> and \<open>k\<close> is matched by itself and by its
  upper-case form, and by nothing else.
\<close>

lemma toLower_eq_lower:
  assumes "97 \<le> (of_char tr :: nat)" "(of_char tr :: nat) \<le> 122"
  shows "toLower sr = tr \<longleftrightarrow> sr = tr \<or> sr = char_of ((of_char tr :: nat) - 32)"
proof (cases "isUpper sr")
  case True
  then have r: "65 \<le> (of_char sr :: nat)" "(of_char sr :: nat) \<le> 90"
    by (simp_all add: isUpper_def)
  have "toLower sr = tr \<longleftrightarrow> char_of ((of_char sr :: nat) + 32) = (char_of (of_char tr :: nat) :: char)"
    using True by (simp add: toLower_def)
  also have "\<dots> \<longleftrightarrow> (of_char sr :: nat) + 32 = of_char tr"
    using r assms by (simp add: char_of_eq_iff take_bit_nat_eq_self)
  also have "\<dots> \<longleftrightarrow> (of_char sr :: nat) = of_char tr - 32"
    using assms by auto
  also have "\<dots> \<longleftrightarrow> sr = char_of ((of_char tr :: nat) - 32)"
  proof
    assume "(of_char sr :: nat) = of_char tr - 32"
    then have "char_of (of_char sr :: nat) = (char_of ((of_char tr :: nat) - 32) :: char)"
      by (rule arg_cong)
    then show "sr = char_of ((of_char tr :: nat) - 32)"
      by simp
  next
    assume "sr = char_of ((of_char tr :: nat) - 32)"
    then show "(of_char sr :: nat) = of_char tr - 32"
      using assms by (simp add: take_bit_nat_eq_self)
  qed
  finally have "toLower sr = tr \<longleftrightarrow> sr = char_of ((of_char tr :: nat) - 32)" .
  moreover have "sr \<noteq> tr"
    using r assms by auto
  ultimately show ?thesis by simp
next
  case False
  then have "toLower sr = sr"
    by (simp add: toLower_def)
  moreover have "sr \<noteq> char_of ((of_char tr :: nat) - 32)"
  proof
    assume "sr = char_of ((of_char tr :: nat) - 32)"
    then have "(of_char sr :: nat) = of_char tr - 32"
      using assms by (simp add: take_bit_nat_eq_self)
    moreover from False have "\<not> (65 \<le> (of_char sr :: nat) \<and> (of_char sr :: nat) \<le> 90)"
      by (simp add: isUpper_def)
    ultimately show False
      using assms by arith
  qed
  ultimately show ?thesis by auto
qed


lemma asciiFoldEq_lower:
  assumes "97 \<le> (of_char tr :: nat)" "(of_char tr :: nat) \<le> 122"
  shows "asciiFoldEq sr tr \<longleftrightarrow> sr = tr \<or> sr = char_of ((of_char tr :: nat) - 32)"
proof -
  have "toLower tr = tr"
    using assms by (simp add: toLower_def isUpper_def)
  moreover have "(of_char sr :: nat) < 128" if "sr = tr \<or> sr = char_of ((of_char tr :: nat) - 32)"
    using that assms by (auto simp: take_bit_nat_eq_self)
  ultimately show ?thesis
    using assms toLower_eq_lower [OF assms, of sr] by (auto simp: asciiFoldEq_def)
qed

lemma EqualFold_step:
  assumes "97 \<le> (of_char tr :: nat)" "(of_char tr :: nat) \<le> 122" "tr \<noteq> CHR ''s''" "tr \<noteq> CHR ''k''"
  shows "EqualFold s (tr # t) \<longleftrightarrow>
           (\<exists>sr s'. s = sr # s' \<and> (sr = tr \<or> sr = char_of ((of_char tr :: nat) - 32)) \<and> EqualFold s' t)"
proof (cases s)
  case Nil
  then show ?thesis by simp
next
  case (Cons sr s')
  have "toLower tr = tr"
    using assms by (simp add: toLower_def isUpper_def)
  with assms(3,4) Cons show ?thesis
    by (auto simp: asciiFoldEq_lower [OF assms(1,2)] split: list.splits)
qed

lemma EqualFold_Nil: "EqualFold s [] \<longleftrightarrow> s = []"
  by (cases s) simp_all

lemma upper_of_lower:
  "char_of (71 :: nat) = CHR ''G''" "char_of (69 :: nat) = CHR ''E''"
  "char_of (84 :: nat) = CHR ''T''" "char_of (65 :: nat) = CHR ''A''"
  "char_of (76 :: nat) = CHR ''L''" "char_of (83 :: nat) = CHR ''S''"
  by code_simp+

lemma EqualFold_g:
  "EqualFold s (CHR ''g'' # t) \<longleftrightarrow>
     (\<exists>sr s'. s = sr # s' \<and> (sr = CHR ''g'' \<or> sr = CHR ''G'') \<and> EqualFold s' t)"
  using EqualFold_step [of "CHR ''g''" s t] by (simp add: upper_of_lower)

lemma EqualFold_e:
  "EqualFold s (CHR ''e'' # t) \<longleftrightarrow>
     (\<exists>sr s'. s = sr # s' \<and> (sr = CHR ''e'' \<or> sr = CHR ''E'') \<and> EqualFold s' t)"
  using EqualFold_step [of "CHR ''e''" s t] by (simp add: upper_of_lower)

lemma EqualFold_t:
  "EqualFold s (CHR ''t'' # t) \<longleftrightarrow>
     (\<exists>sr s'. s = sr # s' \<and> (sr = CHR ''t'' \<or> sr = CHR ''T'') \<and> EqualFold s' t)"
  using EqualFold_step [of "CHR ''t''" s t] by (simp add: upper_of_lower)

lemma EqualFold_a:
  "EqualFold s (CHR ''a'' # t) \<longleftrightarrow>
     (\<exists>sr s'. s = sr # s' \<and> (sr = CHR ''a'' \<or> sr = CHR ''A'') \<and> EqualFold s' t)"
  using EqualFold_step [of "CHR ''a''" s t] by (simp add: upper_of_lower)

lemma EqualFold_l:
  "EqualFold s (CHR ''l'' # t) \<longleftrightarrow>
     (\<exists>sr s'. s = sr # s' \<and> (sr = CHR ''l'' \<or> sr = CHR ''L'') \<and> EqualFold s' t)"
  using EqualFold_step [of "CHR ''l''" s t] by (simp add: upper_of_lower)

lemma EqualFold_s:
  "EqualFold s (CHR ''s'' # t) \<longleftrightarrow>
     (\<exists>sr s'. s = sr # s' \<and> (sr = CHR ''s'' \<or> sr = CHR ''S'') \<and> EqualFold s' t) \<or>
     (\<exists>s'. s = CHR 0xC5 # CHR 0xBF # s' \<and> EqualFold s' t)"
proof (cases s)
  case Nil
  then show ?thesis by simp
next
  case (Cons sr s')
  have fold: "asciiFoldEq sr (CHR ''s'') \<longleftrightarrow> sr = CHR ''s'' \<or> sr = CHR ''S''"
    using asciiFoldEq_lower [of "CHR ''s''" sr] by (simp add: upper_of_lower)
  have lower: "toLower (CHR ''s'') = CHR ''s''"
    by (simp add: toLower_def isUpper_def)
  show ?thesis
  proof (cases "asciiFoldEq sr (CHR ''s'')")
    case True
    with Cons fold show ?thesis by auto
  next
    case False
    with Cons fold show ?thesis
      by (cases s') (auto simp: lower split: list.splits)
  qed
qed

text \<open>
  The words that pass for \<open>get\<close>, for \<open>set\<close> and for \<open>common_All\<close>: the word in any mix of
  upper and lower case and, for \<open>set\<close>, also with the two bytes of U+017F in place of its
  first letter.
\<close>

lemma EqualFold_get:
  "EqualFold s ''get'' \<longleftrightarrow>
     (\<exists>a b c. s = [a, b, c] \<and> (a = CHR ''g'' \<or> a = CHR ''G'') \<and>
        (b = CHR ''e'' \<or> b = CHR ''E'') \<and> (c = CHR ''t'' \<or> c = CHR ''T''))"
  apply (simp only: EqualFold_g EqualFold_e EqualFold_t EqualFold_Nil)
  apply (rule iffI)
   apply (elim exE conjE)
   apply simp
  apply (elim exE conjE)
  apply simp
  done

lemma EqualFold_common_All:
  "EqualFold s common_All \<longleftrightarrow>
     (\<exists>a b c. s = [a, b, c] \<and> (a = CHR ''a'' \<or> a = CHR ''A'') \<and>
        (b = CHR ''l'' \<or> b = CHR ''L'') \<and> (c = CHR ''l'' \<or> c = CHR ''L''))"
  apply (simp only: common_All_def EqualFold_a EqualFold_l EqualFold_Nil)
  apply (rule iffI)
   apply (elim exE conjE)
   apply simp
  apply (elim exE conjE)
  apply simp
  done

lemma EqualFold_set:
  "EqualFold s ''set'' \<longleftrightarrow>
     (\<exists>a b c. s = [a, b, c] \<and> (a = CHR ''s'' \<or> a = CHR ''S'') \<and>
        (b = CHR ''e'' \<or> b = CHR ''E'') \<and> (c = CHR ''t'' \<or> c = CHR ''T'')) \<or>
     (\<exists>b c. s = [CHR 0xC5, CHR 0xBF, b, c] \<and>
        (b = CHR ''e'' \<or> b = CHR ''E'') \<and> (c = CHR ''t'' \<or> c = CHR ''T''))"
  apply (simp only: EqualFold_s EqualFold_e EqualFold_t EqualFold_Nil)
  apply (rule iffI)
   apply (elim disjE exE conjE; simp)
  apply (elim disjE exE conjE; simp)
  done


lemma EqualFold_samples:
  "EqualFold ''get'' ''get''" "EqualFold ''GET'' ''get''" "EqualFold ''Set'' ''set''"
  "EqualFold [CHR 0xC5, CHR 0xBF, CHR ''e'', CHR ''t''] ''set''"
  "\<not> EqualFold ''gets'' ''get''" "\<not> EqualFold ''ge'' ''get''" "\<not> EqualFold ''put'' ''set''"
  "EqualFold ''All'' common_All" "EqualFold ''ALL'' common_All" "EqualFold ''all'' common_All"
  by code_simp+

section \<open>The claims\<close>

subsection \<open>Unknown method\<close>

text \<open>
  Claim C1. A command request whose topic has three levels or more and whose last level
  is neither \<open>get\<close> nor \<open>set\<close> in any casing is not answered: the handler publishes
  nothing and serializes nothing. When the envelope decodes, all it does after its first
  debug line is to log the unknown method and the warning that no error message is sent
  back (lines 115 to 119); when the envelope does not decode, it logs the decode failure
  and the same warning instead (lines 96 to 101), and the method is never looked at.
\<close>

theorem C1_unknown_method_returns_without_publishing:
  assumes "Split (Topic message) (CHR ''/'') = pre @ [deviceName, commandName, method]"
    and "\<not> EqualFold method ''get''" and "\<not> EqualFold method ''set''"
  shows "publishCalls (commandRequestHandler requestTimeout env message) = [] \<and>
         marshalCalls (commandRequestHandler requestTimeout env message) = [] \<and>
         (\<forall>requestEnvelope.
            NewMessageEnvelopeFromJSON env (MessagePayload message) = Inr requestEnvelope \<longrightarrow>
            tl (commandRequestHandler requestTimeout env message) =
              [Log (Errorf ''Unknown request method: %s, only 'get' or 'set' is allowed'' [Str method]),
               Log (Warn notPublishing)]) \<and>
         (\<forall>err.
            NewMessageEnvelopeFromJSON env (MessagePayload message) = Inl err \<longrightarrow>
            tl (commandRequestHandler requestTimeout env message) =
              [Log (Errorf ''Failed to decode request MessageEnvelope: %s'' [Str err]),
               Log (Warn notPublishing)])"
proof -
  have "commandTopicLevels (Topic message) = Some (deviceName, commandName, method)"
    using assms(1) by (rule commandTopicLevels_last3)
  with assms(2,3) show ?thesis
    by (simp add: commandRequestHandler_def Let_def split: sum.split)
qed

theorem C1_witness:
  "Split (Topic \<lparr>Topic = ''request/sensor1/heartbeat/delete'', MessagePayload = ''{}''\<rparr>) (CHR ''/'') =
     [''request''] @ [''sensor1'', ''heartbeat'', ''delete''] \<and>
   \<not> EqualFold ''delete'' ''get'' \<and> \<not> EqualFold ''delete'' ''set'' \<and>
   NewMessageEnvelopeFromJSON sampleEnvironment
     (MessagePayload \<lparr>Topic = ''request/sensor1/heartbeat/delete'', MessagePayload = ''{}''\<rparr>) =
     Inr sampleRequest \<and>
   publishCalls (commandRequestHandler 5 sampleEnvironment
     \<lparr>Topic = ''request/sensor1/heartbeat/delete'', MessagePayload = ''{}''\<rparr>) = [] \<and>
   tl (commandRequestHandler 5 sampleEnvironment
     \<lparr>Topic = ''request/sensor1/heartbeat/delete'', MessagePayload = ''{}''\<rparr>) =
     [Log (Errorf ''Unknown request method: %s, only 'get' or 'set' is allowed'' [Str ''delete'']),
      Log (Warn notPublishing)] \<and>
   NewMessageEnvelopeFromJSON sampleEnvironment
     (MessagePayload \<lparr>Topic = ''request/sensor1/heartbeat/delete'', MessagePayload = ''{''\<rparr>) =
     Inl ''unexpected end of JSON input'' \<and>
   publishCalls (commandRequestHandler 5 sampleEnvironment
     \<lparr>Topic = ''request/sensor1/heartbeat/delete'', MessagePayload = ''{''\<rparr>) = [] \<and>
   tl (commandRequestHandler 5 sampleEnvironment
     \<lparr>Topic = ''request/sensor1/heartbeat/delete'', MessagePayload = ''{''\<rparr>) =
     [Log (Errorf ''Failed to decode request MessageEnvelope: %s'' [Str ''unexpected end of JSON input'']),
      Log (Warn notPublishing)]"
proof -
  let ?m = "\<lparr>Topic = ''request/sensor1/heartbeat/delete'', MessagePayload = ''{}''\<rparr>"
  let ?u = "\<lparr>Topic = ''request/sensor1/heartbeat/delete'', MessagePayload = ''{''\<rparr>"
  have h1: "Split (Topic ?m) (CHR ''/'') = [''request''] @ [''sensor1'', ''heartbeat'', ''delete'']"
    and h1': "Split (Topic ?u) (CHR ''/'') = [''request''] @ [''sensor1'', ''heartbeat'', ''delete'']"
    by simp_all
  have h2: "\<not> EqualFold ''delete'' ''get''" and h3: "\<not> EqualFold ''delete'' ''set''"
    by code_simp+
  have h4: "NewMessageEnvelopeFromJSON sampleEnvironment (MessagePayload ?m) = Inr sampleRequest"
    and h5: "NewMessageEnvelopeFromJSON sampleEnvironment (MessagePayload ?u) =
               Inl ''unexpected end of JSON input''"
    by (simp_all add: sampleEnvironment_def sampleDecode_def)
  from C1_unknown_method_returns_without_publishing [OF h1 h2 h3, of 5 sampleEnvironment]
    C1_unknown_method_returns_without_publishing [OF h1' h2 h3, of 5 sampleEnvironment]
    h1 h2 h3 h4 h5
  show ?thesis by simp
qed

text \<open>
  The specification lets the handler answer such a request with an error envelope on the
  response topic built from the three levels. On the sample deployment, the request
  \<open>request/sensor1/heartbeat/post\<close> decodes, has four levels and an unknown method, and
  nothing is published.
\<close>

theorem C1_counterexample:
  "3 \<le> length (Split ''request/sensor1/heartbeat/post'' (CHR ''/'')) \<and>
   \<not> EqualFold ''post'' ''get'' \<and> \<not> EqualFold ''post'' ''set'' \<and>
   \<not> isl (NewMessageEnvelopeFromJSON sampleEnvironment ''{}'') \<and>
   publishCalls (commandRequestHandler 5 sampleEnvironment
     \<lparr>Topic = ''request/sensor1/heartbeat/post'', MessagePayload = ''{}''\<rparr>) = []"
  by code_simp

subsection \<open>Failures that are answered\<close>

text \<open>
  Claim C2. When the envelope decodes, the topic ends in the levels device, command and
  method, and the method is \<open>get\<close> or \<open>set\<close> in any casing, then a failure of the routing
  resolution, of the query-parameter validation or of the request on the internal bus makes
  the handler serialize and publish exactly one envelope: its error code is 1, its request
  id is that of the request, and its topic is the configured response prefix followed by
  the three levels.
\<close>

theorem C2_failure_publishes_one_error_envelope:
  assumes "NewMessageEnvelopeFromJSON env (MessagePayload message) = Inr requestEnvelope"
    and "Split (Topic message) (CHR ''/'') = pre @ [deviceName, commandName, method]"
    and "EqualFold method ''get'' \<or> EqualFold method ''set''"
    and "case validateRequestTopic env
                (lookupTopic (BusTopics (MessageBus (Configuration env))) DeviceCommandRequestTopicPrefixKey)
                deviceName commandName method of
           Inl err \<Rightarrow> True
         | Inr (deviceServiceName, deviceRequestTopic) \<Rightarrow>
             validateGetCommandQueryParameters env (QueryParams requestEnvelope) \<noteq> None \<or>
             isl (Request env requestEnvelope deviceServiceName deviceRequestTopic requestTimeout)"
  shows "\<exists>errorEnvelope.
           ErrorCode errorEnvelope = 1 \<and>
           RequestID errorEnvelope = RequestID requestEnvelope \<and>
           marshalCalls (commandRequestHandler requestTimeout env message) = [errorEnvelope] \<and>
           publishCalls (commandRequestHandler requestTimeout env message) =
             [(lookupTopic (Topics (ExternalMQTT (Configuration env))) ExternalCommandResponseTopicPrefixKey
                 @ ''/'' @ deviceName @ ''/'' @ commandName @ ''/'' @ method,
               QoS (ExternalMQTT (Configuration env)), Retain (ExternalMQTT (Configuration env)),
               fst (jsonMarshal env errorEnvelope))]"
proof -
  have levels: "commandTopicLevels (Topic message) = Some (deviceName, commandName, method)"
    using assms(2) by (rule commandTopicLevels_last3)
  let ?E = "NewMessageEnvelopeWithError (blankErrorEnvelope env) (RequestID requestEnvelope)"
  have E: "ErrorCode (?E msg) = 1 \<and> RequestID (?E msg) = RequestID requestEnvelope" for msg
    by (simp add: NewMessageEnvelopeWithError_def)
  from assms(4) consider
      (routing) err where "validateRequestTopic env
          (lookupTopic (BusTopics (MessageBus (Configuration env))) DeviceCommandRequestTopicPrefixKey)
          deviceName commandName method = Inl err"
    | (params) svc rt err where "validateRequestTopic env
          (lookupTopic (BusTopics (MessageBus (Configuration env))) DeviceCommandRequestTopicPrefixKey)
          deviceName commandName method = Inr (svc, rt)"
        "validateGetCommandQueryParameters env (QueryParams requestEnvelope) = Some err"
    | (request) svc rt err where "validateRequestTopic env
          (lookupTopic (BusTopics (MessageBus (Configuration env))) DeviceCommandRequestTopicPrefixKey)
          deviceName commandName method = Inr (svc, rt)"
        "validateGetCommandQueryParameters env (QueryParams requestEnvelope) = None"
        "Request env requestEnvelope svc rt requestTimeout = Inl err"
    by (cases "validateGetCommandQueryParameters env (QueryParams requestEnvelope)")
      (auto split: sum.splits simp: isl_def)
  then show ?thesis
  proof cases
    case routing
    with assms(1,3) levels E [of err] show ?thesis
      by (intro exI [of _ "?E err"])
        (auto simp add: commandRequestHandler_def Let_def publishCalls_publishMessage
          marshalCalls_publishMessage)
  next
    case params
    with assms(1,3) levels E [of err] show ?thesis
      by (intro exI [of _ "?E err"])
        (auto simp add: commandRequestHandler_def Let_def publishCalls_publishMessage
          marshalCalls_publishMessage)
  next
    case request
    with assms(1,3) levels E [of "requestFailed err"] show ?thesis
      by (intro exI [of _ "?E (requestFailed err)"])
        (auto simp add: commandRequestHandler_def Let_def publishCalls_publishMessage
          marshalCalls_publishMessage)
  qed
qed

text \<open>
  The three failures on the sample deployment: the device \<open>sensor9\<close> has no route, the
  payload \<open>{q}\<close> carries a query parameter the validator rejects, and the time bound 0
  makes the internal bus time out.
\<close>

theorem C2_witness:
  "(\<exists>errorEnvelope.
      ErrorCode errorEnvelope = 1 \<and> RequestID errorEnvelope = RequestID sampleRequest \<and>
      marshalCalls (commandRequestHandler 5 sampleEnvironment
        \<lparr>Topic = ''request/sensor9/heartbeat/get'', MessagePayload = ''{}''\<rparr>) = [errorEnvelope] \<and>
      publishCalls (commandRequestHandler 5 sampleEnvironment
        \<lparr>Topic = ''request/sensor9/heartbeat/get'', MessagePayload = ''{}''\<rparr>) =
        [(''command/response/sensor9/heartbeat/get'', 1, False,
          fst (jsonMarshal sampleEnvironment errorEnvelope))]) \<and>
   (\<exists>errorEnvelope.
      ErrorCode errorEnvelope = 1 \<and> RequestID errorEnvelope = ''R1'' \<and>
      marshalCalls (commandRequestHandler 5 sampleEnvironment
        \<lparr>Topic = ''request/sensor1/heartbeat/GET'', MessagePayload = ''{q}''\<rparr>) = [errorEnvelope] \<and>
      publishCalls (commandRequestHandler 5 sampleEnvironment
        \<lparr>Topic = ''request/sensor1/heartbeat/GET'', MessagePayload = ''{q}''\<rparr>) =
        [(''command/response/sensor1/heartbeat/GET'', 1, False,
          fst (jsonMarshal sampleEnvironment errorEnvelope))]) \<and>
   (\<exists>errorEnvelope.
      ErrorCode errorEnvelope = 1 \<and> RequestID errorEnvelope = RequestID sampleRequest \<and>
      marshalCalls (commandRequestHandler 0 sampleEnvironment
        \<lparr>Topic = ''request/sensor1/heartbeat/set'', MessagePayload = ''{}''\<rparr>) = [errorEnvelope] \<and>
      publishCalls (commandRequestHandler 0 sampleEnvironment
        \<lparr>Topic = ''request/sensor1/heartbeat/set'', MessagePayload = ''{}''\<rparr>) =
        [(''command/response/sensor1/heartbeat/set'', 1, False,
          fst (jsonMarshal sampleEnvironment errorEnvelope))])"
proof -
  let ?routing = "\<lparr>Topic = ''request/sensor9/heartbeat/get'', MessagePayload = ''{}''\<rparr>"
  let ?params = "\<lparr>Topic = ''request/sensor1/heartbeat/GET'', MessagePayload = ''{q}''\<rparr>"
  let ?timeout = "\<lparr>Topic = ''request/sensor1/heartbeat/set'', MessagePayload = ''{}''\<rparr>"
  let ?q = "sampleRequest\<lparr>QueryParams := [''ds-returnevent'' \<mapsto> ''maybe'']\<rparr>"
  let ?prefix = "lookupTopic (BusTopics (MessageBus (Configuration sampleEnvironment)))
                   DeviceCommandRequestTopicPrefixKey"
  have config:
    "lookupTopic (Topics (ExternalMQTT (Configuration sampleEnvironment)))
       ExternalCommandResponseTopicPrefixKey = ''command/response''"
    "QoS (ExternalMQTT (Configuration sampleEnvironment)) = 1"
    "Retain (ExternalMQTT (Configuration sampleEnvironment)) = False"
    by code_simp+
  have d1: "NewMessageEnvelopeFromJSON sampleEnvironment (MessagePayload ?routing) = Inr sampleRequest"
    and d2: "NewMessageEnvelopeFromJSON sampleEnvironment (MessagePayload ?params) = Inr ?q"
    and d3: "NewMessageEnvelopeFromJSON sampleEnvironment (MessagePayload ?timeout) = Inr sampleRequest"
    by (simp_all add: sampleEnvironment_def sampleDecode_def)
  have s1: "Split (Topic ?routing) (CHR ''/'') = [''request''] @ [''sensor9'', ''heartbeat'', ''get'']"
    and s2: "Split (Topic ?params) (CHR ''/'') = [''request''] @ [''sensor1'', ''heartbeat'', ''GET'']"
    and s3: "Split (Topic ?timeout) (CHR ''/'') = [''request''] @ [''sensor1'', ''heartbeat'', ''set'']"
    by simp_all
  have m1: "EqualFold ''get'' ''get'' \<or> EqualFold ''get'' ''set''"
    and m2: "EqualFold ''GET'' ''get'' \<or> EqualFold ''GET'' ''set''"
    and m3: "EqualFold ''set'' ''get'' \<or> EqualFold ''set'' ''set''"
    by code_simp+
  have f1: "case validateRequestTopic sampleEnvironment ?prefix ''sensor9'' ''heartbeat'' ''get'' of
              Inl err \<Rightarrow> True
            | Inr (deviceServiceName, deviceRequestTopic) \<Rightarrow>
                validateGetCommandQueryParameters sampleEnvironment (QueryParams sampleRequest) \<noteq> None \<or>
                isl (Request sampleEnvironment sampleRequest deviceServiceName deviceRequestTopic 5)"
    by code_simp
  have f2: "case validateRequestTopic sampleEnvironment ?prefix ''sensor1'' ''heartbeat'' ''GET'' of
              Inl err \<Rightarrow> True
            | Inr (deviceServiceName, deviceRequestTopic) \<Rightarrow>
                validateGetCommandQueryParameters sampleEnvironment (QueryParams ?q) \<noteq> None \<or>
                isl (Request sampleEnvironment ?q deviceServiceName deviceRequestTopic 5)"
    by code_simp
  have f3: "case validateRequestTopic sampleEnvironment ?prefix ''sensor1'' ''heartbeat'' ''set'' of
              Inl err \<Rightarrow> True
            | Inr (deviceServiceName, deviceRequestTopic) \<Rightarrow>
                validateGetCommandQueryParameters sampleEnvironment (QueryParams sampleRequest) \<noteq> None \<or>
                isl (Request sampleEnvironment sampleRequest deviceServiceName deviceRequestTopic 0)"
    by code_simp
  have r: "RequestID ?q = ''R1''"
    by (simp add: sampleRequest_def)
  from C2_failure_publishes_one_error_envelope [OF d1 s1 m1 f1]
    C2_failure_publishes_one_error_envelope [OF d2 s2 m2 f2]
    C2_failure_publishes_one_error_envelope [OF d3 s3 m3 f3]
  show ?thesis
    unfolding config r by simp
qed

subsection \<open>Inputs that cannot be answered\<close>

text \<open>
  Claim C3. Nothing is published for a payload that does not decode, by either handler;
  for a command request whose topic has fewer than three levels; and for a query request
  when the configuration holds no query-response topic, or an empty one.
\<close>

theorem C3_unanswerable_inputs_publish_nothing:
  "(\<forall>err. NewMessageEnvelopeFromJSON env (MessagePayload message) = Inl err \<longrightarrow>
      publishCalls (commandQueryHandler env message) = [] \<and>
      publishCalls (commandRequestHandler requestTimeout env message) = []) \<and>
   (length (Split (Topic message) (CHR ''/'')) < 3 \<longrightarrow>
      publishCalls (commandRequestHandler requestTimeout env message) = []) \<and>
   (lookupTopic (Topics (ExternalMQTT (Configuration env))) ExternalCommandQueryResponseTopicKey = [] \<longrightarrow>
      publishCalls (commandQueryHandler env message) = [])"
proof (intro conjI allI impI)
  fix err
  assume "NewMessageEnvelopeFromJSON env (MessagePayload message) = Inl err"
  then show "publishCalls (commandQueryHandler env message) = []"
    and "publishCalls (commandRequestHandler requestTimeout env message) = []"
    by (simp_all add: commandQueryHandler_def commandRequestHandler_def)
next
  assume "length (Split (Topic message) (CHR ''/'')) < 3"
  then have "commandTopicLevels (Topic message) = None"
    by (rule commandTopicLevels_short)
  then show "publishCalls (commandRequestHandler requestTimeout env message) = []"
    by (simp add: commandRequestHandler_def Let_def split: sum.split)
next
  assume "lookupTopic (Topics (ExternalMQTT (Configuration env))) ExternalCommandQueryResponseTopicKey = []"
  then show "publishCalls (commandQueryHandler env message) = []"
    by (simp add: commandQueryHandler_def Let_def split: sum.split)
qed

theorem C3_witness:
  "NewMessageEnvelopeFromJSON sampleEnvironment
     (MessagePayload \<lparr>Topic = ''request/sensor1/heartbeat/get'', MessagePayload = ''{''\<rparr>) =
     Inl ''unexpected end of JSON input'' \<and>
   publishCalls (commandQueryHandler sampleEnvironment
     \<lparr>Topic = ''request/sensor1/heartbeat/get'', MessagePayload = ''{''\<rparr>) = [] \<and>
   publishCalls (commandRequestHandler 5 sampleEnvironment
     \<lparr>Topic = ''request/sensor1/heartbeat/get'', MessagePayload = ''{''\<rparr>) = [] \<and>
   length (Split (Topic \<lparr>Topic = ''heartbeat/get'', MessagePayload = ''{}''\<rparr>) (CHR ''/'')) < 3 \<and>
   publishCalls (commandRequestHandler 5 sampleEnvironment
     \<lparr>Topic = ''heartbeat/get'', MessagePayload = ''{}''\<rparr>) = [] \<and>
   lookupTopic (Topics (ExternalMQTT (Configuration sampleUnconfigured)))
     ExternalCommandQueryResponseTopicKey = [] \<and>
   publishCalls (commandQueryHandler sampleUnconfigured
     \<lparr>Topic = ''query/request/sensor1'', MessagePayload = ''{}''\<rparr>) = []"
proof -
  let ?undecodable = "\<lparr>Topic = ''request/sensor1/heartbeat/get'', MessagePayload = ''{''\<rparr>"
  let ?short = "\<lparr>Topic = ''heartbeat/get'', MessagePayload = ''{}''\<rparr>"
  let ?query = "\<lparr>Topic = ''query/request/sensor1'', MessagePayload = ''{}''\<rparr>"
  have h1: "NewMessageEnvelopeFromJSON sampleEnvironment (MessagePayload ?undecodable) =
              Inl ''unexpected end of JSON input''"
    by (simp add: sampleEnvironment_def sampleDecode_def)
  have h2: "length (Split (Topic ?short) (CHR ''/'')) < 3"
    by code_simp
  have h3: "lookupTopic (Topics (ExternalMQTT (Configuration sampleUnconfigured)))
              ExternalCommandQueryResponseTopicKey = []"
    by code_simp
  from C3_unanswerable_inputs_publish_nothing [of sampleEnvironment ?undecodable 5]
    C3_unanswerable_inputs_publish_nothing [of sampleEnvironment ?short 5]
    C3_unanswerable_inputs_publish_nothing [of sampleUnconfigured ?query 5]
    h1 h2 h3
  show ?thesis by blast
qed

subsection \<open>Query parameters\<close>

text \<open>
  Claim C4. The handler hands the query parameters of the envelope to the validator for
  every request that has a route, whether its method is \<open>get\<close> or \<open>set\<close>: line 131 is not
  guarded by the method, and the validator is not given it. When the validator rejects
  them, the handler publishes one error envelope with the validator's message, for a
  \<open>set\<close> request as for a \<open>get\<close> request.
\<close>

theorem C4_query_parameters_validated_for_get_and_set:
  assumes "NewMessageEnvelopeFromJSON env (MessagePayload message) = Inr requestEnvelope"
    and "Split (Topic message) (CHR ''/'') = pre @ [deviceName, commandName, method]"
    and "EqualFold method ''get'' \<or> EqualFold method ''set''"
    and "validateRequestTopic env
           (lookupTopic (BusTopics (MessageBus (Configuration env))) DeviceCommandRequestTopicPrefixKey)
           deviceName commandName method = Inr (deviceServiceName, deviceRequestTopic)"
  shows "validateQueryParametersCalls (commandRequestHandler requestTimeout env message) =
           [QueryParams requestEnvelope] \<and>
         (\<forall>err. validateGetCommandQueryParameters env (QueryParams requestEnvelope) = Some err \<longrightarrow>
            marshalCalls (commandRequestHandler requestTimeout env message) =
              [NewMessageEnvelopeWithError (blankErrorEnvelope env) (RequestID requestEnvelope) err] \<and>
            publishCalls (commandRequestHandler requestTimeout env message) =
              [(lookupTopic (Topics (ExternalMQTT (Configuration env))) ExternalCommandResponseTopicPrefixKey
                  @ ''/'' @ deviceName @ ''/'' @ commandName @ ''/'' @ method,
                QoS (ExternalMQTT (Configuration env)), Retain (ExternalMQTT (Configuration env)),
                fst (jsonMarshal env
                  (NewMessageEnvelopeWithError (blankErrorEnvelope env) (RequestID requestEnvelope) err)))])"
proof -
  have "commandTopicLevels (Topic message) = Some (deviceName, commandName, method)"
    using assms(2) by (rule commandTopicLevels_last3)
  with assms show ?thesis
    by (auto simp add: commandRequestHandler_def Let_def publishCalls_publishMessage
        marshalCalls_publishMessage validateQueryParametersCalls_publishMessage
        split: option.split sum.split)
qed

theorem C4_witness:
  "EqualFold ''set'' ''set'' \<and>
   validateGetCommandQueryParameters sampleEnvironment
     (QueryParams (sampleRequest\<lparr>QueryParams := [''ds-returnevent'' \<mapsto> ''maybe'']\<rparr>)) =
     Some ''invalid query parameter'' \<and>
   validateQueryParametersCalls (commandRequestHandler 5 sampleEnvironment
     \<lparr>Topic = ''request/sensor1/heartbeat/set'', MessagePayload = ''{q}''\<rparr>) =
     [[''ds-returnevent'' \<mapsto> ''maybe'']] \<and>
   map Payload (marshalCalls (commandRequestHandler 5 sampleEnvironment
     \<lparr>Topic = ''request/sensor1/heartbeat/set'', MessagePayload = ''{q}''\<rparr>)) =
     [''invalid query parameter'']"
proof -
  let ?m = "\<lparr>Topic = ''request/sensor1/heartbeat/set'', MessagePayload = ''{q}''\<rparr>"
  let ?q = "sampleRequest\<lparr>QueryParams := [''ds-returnevent'' \<mapsto> ''maybe'']\<rparr>"
  have h1: "NewMessageEnvelopeFromJSON sampleEnvironment (MessagePayload ?m) = Inr ?q"
    by (simp add: sampleEnvironment_def sampleDecode_def)
  have h2: "Split (Topic ?m) (CHR ''/'') = [''request''] @ [''sensor1'', ''heartbeat'', ''set'']"
    by simp
  have h3: "EqualFold ''set'' ''get'' \<or> EqualFold ''set'' ''set''" and h3': "EqualFold ''set'' ''set''"
    by code_simp+
  have h4: "validateRequestTopic sampleEnvironment
              (lookupTopic (BusTopics (MessageBus (Configuration sampleEnvironment)))
                 DeviceCommandRequestTopicPrefixKey)
              ''sensor1'' ''heartbeat'' ''set'' = Inr (''svcA'', ''internal/svcA/sensor1/heartbeat/set'')"
    by code_simp
  have h5: "validateGetCommandQueryParameters sampleEnvironment (QueryParams ?q) =
              Some ''invalid query parameter''"
    by code_simp
  have p: "QueryParams ?q = [''ds-returnevent'' \<mapsto> ''maybe'']"
    "Payload (NewMessageEnvelopeWithError (blankErrorEnvelope sampleEnvironment) (RequestID ?q)
       ''invalid query parameter'') = ''invalid query parameter''"
    by (simp_all add: NewMessageEnvelopeWithError_def)
  from C4_query_parameters_validated_for_get_and_set [OF h1 h2 h3 h4, of 5] h5 h3' p
  show ?thesis by simp
qed

text \<open>
  The specification applies the validation to \<open>get\<close> requests only. On the sample
  deployment, the \<open>set\<close> request with the rejected parameter is answered with the
  validator's error.
\<close>

theorem C4_counterexample:
  "EqualFold ''set'' ''set'' \<and> \<not> EqualFold ''set'' ''get'' \<and>
   length (validateQueryParametersCalls (commandRequestHandler 5 sampleEnvironment
     \<lparr>Topic = ''request/sensor1/heartbeat/set'', MessagePayload = ''{q}''\<rparr>)) = 1 \<and>
   map ErrorCode (marshalCalls (commandRequestHandler 5 sampleEnvironment
     \<lparr>Topic = ''request/sensor1/heartbeat/set'', MessagePayload = ''{q}''\<rparr>)) = [1] \<and>
   publishCalls (commandRequestHandler 5 sampleEnvironment
     \<lparr>Topic = ''request/sensor1/heartbeat/set'', MessagePayload = ''{q}''\<rparr>) =
     [(''command/response/sensor1/heartbeat/set'', 1, False, ''R1:invalid query parameter'')] \<and>
   publishCalls (commandRequestHandler 5 sampleEnvironment
     \<lparr>Topic = ''request/sensor1/heartbeat/set'', MessagePayload = ''{}''\<rparr>) =
     [(''command/response/sensor1/heartbeat/set'', 1, False, ''R1:42'')]"
  by code_simp

subsection \<open>A failed request on the internal bus\<close>

text \<open>
  Claim C5. When the request on the internal bus returns an error, the payload of the
  error envelope the handler publishes is the text
  \<open>Failed to send DeviceCommand request with internal MessageBus: \<close> followed by the
  message of that error (line 145).
\<close>

theorem C5_request_failure_payload:
  assumes "NewMessageEnvelopeFromJSON env (MessagePayload message) = Inr requestEnvelope"
    and "Split (Topic message) (CHR ''/'') = pre @ [deviceName, commandName, method]"
    and "EqualFold method ''get'' \<or> EqualFold method ''set''"
    and "validateRequestTopic env
           (lookupTopic (BusTopics (MessageBus (Configuration env))) DeviceCommandRequestTopicPrefixKey)
           deviceName commandName method = Inr (deviceServiceName, deviceRequestTopic)"
    and "validateGetCommandQueryParameters env (QueryParams requestEnvelope) = None"
    and "Request env requestEnvelope deviceServiceName deviceRequestTopic requestTimeout = Inl err"
  shows "map Payload (marshalCalls (commandRequestHandler requestTimeout env message)) =
           [''Failed to send DeviceCommand request with internal MessageBus: '' @ err] \<and>
         marshalCalls (commandRequestHandler requestTimeout env message) =
           [NewMessageEnvelopeWithError (blankErrorEnvelope env) (RequestID requestEnvelope)
              (''Failed to send DeviceCommand request with internal MessageBus: '' @ err)] \<and>
         map fst (publishCalls (commandRequestHandler requestTimeout env message)) =
           [lookupTopic (Topics (ExternalMQTT (Configuration env))) ExternalCommandResponseTopicPrefixKey
              @ ''/'' @ deviceName @ ''/'' @ commandName @ ''/'' @ method]"
proof -
  have "commandTopicLevels (Topic message) = Some (deviceName, commandName, method)"
    using assms(2) by (rule commandTopicLevels_last3)
  with assms show ?thesis
    by (auto simp add: commandRequestHandler_def Let_def publishCalls_publishMessage
        marshalCalls_publishMessage requestFailed_def NewMessageEnvelopeWithError_def)
qed

theorem C5_witness:
  "Request sampleEnvironment sampleRequest ''svcA'' ''internal/svcA/sensor1/heartbeat/get'' 0 =
     Inl ''timed out'' \<and>
   map Payload (marshalCalls (commandRequestHandler 0 sampleEnvironment
     \<lparr>Topic = ''request/sensor1/heartbeat/get'', MessagePayload = ''{}''\<rparr>)) =
     [''Failed to send DeviceCommand request with internal MessageBus: timed out'']"
proof -
  let ?m = "\<lparr>Topic = ''request/sensor1/heartbeat/get'', MessagePayload = ''{}''\<rparr>"
  have h1: "NewMessageEnvelopeFromJSON sampleEnvironment (MessagePayload ?m) = Inr sampleRequest"
    by (simp add: sampleEnvironment_def sampleDecode_def)
  have h2: "Split (Topic ?m) (CHR ''/'') = [''request''] @ [''sensor1'', ''heartbeat'', ''get'']"
    by simp
  have h3: "EqualFold ''get'' ''get'' \<or> EqualFold ''get'' ''set''"
    by code_simp
  have h4: "validateRequestTopic sampleEnvironment
              (lookupTopic (BusTopics (MessageBus (Configuration sampleEnvironment)))
                 DeviceCommandRequestTopicPrefixKey)
              ''sensor1'' ''heartbeat'' ''get'' = Inr (''svcA'', ''internal/svcA/sensor1/heartbeat/get'')"
    by code_simp
  have h5: "validateGetCommandQueryParameters sampleEnvironment (QueryParams sampleRequest) = None"
    by code_simp
  have h6: "Request sampleEnvironment sampleRequest ''svcA'' ''internal/svcA/sensor1/heartbeat/get'' 0 =
              Inl ''timed out''"
    by (simp add: sampleEnvironment_def)
  from C5_request_failure_payload [OF h1 h2 h3 h4 h5 h6, THEN conjunct1] h6
  show ?thesis by simp
qed

text \<open>
  The specification surfaces the failure message of the internal bus as the payload,
  unmodified. On the sample deployment the bus fails with \<open>timed out\<close>, and the payload
  published is longer than that.
\<close>

theorem C5_counterexample:
  "Request sampleEnvironment sampleRequest ''svcA'' ''internal/svcA/sensor1/heartbeat/get'' 0 =
     Inl ''timed out'' \<and>
   map Payload (marshalCalls (commandRequestHandler 0 sampleEnvironment
     \<lparr>Topic = ''request/sensor1/heartbeat/get'', MessagePayload = ''{}''\<rparr>)) \<noteq> [''timed out''] \<and>
   publishCalls (commandRequestHandler 0 sampleEnvironment
     \<lparr>Topic = ''request/sensor1/heartbeat/get'', MessagePayload = ''{}''\<rparr>) =
     [(''command/response/sensor1/heartbeat/get'', 1, False,
       ''R1:Failed to send DeviceCommand request with internal MessageBus: timed out'')]"
proof (intro conjI)
  show "Request sampleEnvironment sampleRequest ''svcA'' ''internal/svcA/sensor1/heartbeat/get'' 0 =
          Inl ''timed out''"
    by (simp add: sampleEnvironment_def)
qed code_simp+

subsection \<open>The successful request\<close>

text \<open>
  Claim C6. When the request on the internal bus returns a response, the handler hands
  that response, as it is, to the serializer, and publishes the bytes once, on the
  configured response prefix followed by the device, command and method levels.
\<close>

theorem C6_success_publishes_response_unmodified:
  assumes "NewMessageEnvelopeFromJSON env (MessagePayload message) = Inr requestEnvelope"
    and "Split (Topic message) (CHR ''/'') = pre @ [deviceName, commandName, method]"
    and "EqualFold method ''get'' \<or> EqualFold method ''set''"
    and "validateRequestTopic env
           (lookupTopic (BusTopics (MessageBus (Configuration env))) DeviceCommandRequestTopicPrefixKey)
           deviceName commandName method = Inr (deviceServiceName, deviceRequestTopic)"
    and "validateGetCommandQueryParameters env (QueryParams requestEnvelope) = None"
    and "Request env requestEnvelope deviceServiceName deviceRequestTopic requestTimeout = Inr response"
  shows "marshalCalls (commandRequestHandler requestTimeout env message) = [response] \<and>
         publishCalls (commandRequestHandler requestTimeout env message) =
           [(lookupTopic (Topics (ExternalMQTT (Configuration env))) ExternalCommandResponseTopicPrefixKey
               @ ''/'' @ deviceName @ ''/'' @ commandName @ ''/'' @ method,
             QoS (ExternalMQTT (Configuration env)), Retain (ExternalMQTT (Configuration env)),
             fst (jsonMarshal env response))]"
proof -
  have "commandTopicLevels (Topic message) = Some (deviceName, commandName, method)"
    using assms(2) by (rule commandTopicLevels_last3)
  with assms show ?thesis
    by (auto simp add: commandRequestHandler_def Let_def publishCalls_publishMessage
        marshalCalls_publishMessage)
qed

text \<open>
  The request \<open>.../sensor1/heartbeat/get\<close> with request id \<open>R1\<close>, routed to \<open>svcA\<close> and
  answered with the payload \<open>42\<close>.
\<close>

theorem C6_witness:
  "Request sampleEnvironment sampleRequest ''svcA'' ''internal/svcA/sensor1/heartbeat/get'' 5 =
     Inr (sampleRequest\<lparr>Payload := ''42''\<rparr>) \<and>
   marshalCalls (commandRequestHandler 5 sampleEnvironment
     \<lparr>Topic = ''edgex/command/request/sensor1/heartbeat/get'', MessagePayload = ''{}''\<rparr>) =
     [sampleRequest\<lparr>Payload := ''42''\<rparr>] \<and>
   publishCalls (commandRequestHandler 5 sampleEnvironment
     \<lparr>Topic = ''edgex/command/request/sensor1/heartbeat/get'', MessagePayload = ''{}''\<rparr>) =
     [(''command/response/sensor1/heartbeat/get'', 1, False,
       fst (jsonMarshal sampleEnvironment (sampleRequest\<lparr>Payload := ''42''\<rparr>)))]"
proof -
  let ?m = "\<lparr>Topic = ''edgex/command/request/sensor1/heartbeat/get'', MessagePayload = ''{}''\<rparr>"
  have config:
    "lookupTopic (Topics (ExternalMQTT (Configuration sampleEnvironment)))
       ExternalCommandResponseTopicPrefixKey = ''command/response''"
    "QoS (ExternalMQTT (Configuration sampleEnvironment)) = 1"
    "Retain (ExternalMQTT (Configuration sampleEnvironment)) = False"
    by code_simp+
  have h1: "NewMessageEnvelopeFromJSON sampleEnvironment (MessagePayload ?m) = Inr sampleRequest"
    by (simp add: sampleEnvironment_def sampleDecode_def)
  have h2: "Split (Topic ?m) (CHR ''/'') =
              [''edgex'', ''command'', ''request''] @ [''sensor1'', ''heartbeat'', ''get'']"
    by simp
  have h3: "EqualFold ''get'' ''get'' \<or> EqualFold ''get'' ''set''"
    by code_simp
  have h4: "validateRequestTopic sampleEnvironment
              (lookupTopic (BusTopics (MessageBus (Configuration sampleEnvironment)))
                 DeviceCommandRequestTopicPrefixKey)
              ''sensor1'' ''heartbeat'' ''get'' = Inr (''svcA'', ''internal/svcA/sensor1/heartbeat/get'')"
    by code_simp
  have h5: "validateGetCommandQueryParameters sampleEnvironment (QueryParams sampleRequest) = None"
    by code_simp
  have h6: "Request sampleEnvironment sampleRequest ''svcA'' ''internal/svcA/sensor1/heartbeat/get'' 5 =
              Inr (sampleRequest\<lparr>Payload := ''42''\<rparr>)"
    by (simp add: sampleEnvironment_def)
  from C6_success_publishes_response_unmodified [OF h1 h2 h3 h4 h5 h6] h6
  show ?thesis unfolding config by simp
qed

subsection \<open>The levels of a command topic\<close>

text \<open>
  Claim C7. Whatever levels come first, a topic whose levels end in device, command and
  method is parsed into these three, in this order; a topic of three levels or more does
  end in three levels; joining any levels that hold no separator gives such a topic; and a
  topic of fewer than three levels is not parsed: once the envelope has decoded, the
  handler logs the parse failure and the warning, and returns.
\<close>

theorem C7_command_topic_levels:
  "(\<forall>pre d c m. Split topic (CHR ''/'') = pre @ [d, c, m] \<longrightarrow>
      commandTopicLevels topic = Some (d, c, m)) \<and>
   (3 \<le> length (Split topic (CHR ''/'')) \<longrightarrow>
      (\<exists>pre d c m. Split topic (CHR ''/'') = pre @ [d, c, m])) \<and>
   (\<forall>d c m. (\<forall>level \<in> set (pre @ [d, c, m]). CHR ''/'' \<notin> set level) \<longrightarrow>
      commandTopicLevels (Join (pre @ [d, c, m]) ''/'') = Some (d, c, m)) \<and>
   (length (Split topic (CHR ''/'')) < 3 \<longrightarrow>
      commandTopicLevels topic = None \<and>
      (\<forall>(env :: Environment) requestTimeout payload.
         \<not> isl (NewMessageEnvelopeFromJSON env payload) \<longrightarrow>
         tl (commandRequestHandler requestTimeout env \<lparr>Topic = topic, MessagePayload = payload\<rparr>) =
           [Log (Error ''Failed to parse and construct response topic scheme, expected request topic scheme: '#/<device-name>/<command-name>/<method>''),
            Log (Warn notPublishing)]))"
proof (intro conjI allI impI)
  fix pre d c m
  assume "Split topic (CHR ''/'') = pre @ [d, c, m]"
  then show "commandTopicLevels topic = Some (d, c, m)"
    by (rule commandTopicLevels_last3)
next
  assume "3 \<le> length (Split topic (CHR ''/''))"
  then show "\<exists>pre d c m. Split topic (CHR ''/'') = pre @ [d, c, m]"
    by (rule last3_exists)
next
  fix d c m
  assume "\<forall>level \<in> set (pre @ [d, c, m]). CHR ''/'' \<notin> set level"
  then have "Split (Join (pre @ [d, c, m]) ''/'') (CHR ''/'') = pre @ [d, c, m]"
    by (intro Split_Join) auto
  then show "commandTopicLevels (Join (pre @ [d, c, m]) ''/'') = Some (d, c, m)"
    by (rule commandTopicLevels_last3)
next
  assume short: "length (Split topic (CHR ''/'')) < 3"
  then show "commandTopicLevels topic = None"
    by (rule commandTopicLevels_short)
  fix env :: Environment and requestTimeout payload
  assume "\<not> isl (NewMessageEnvelopeFromJSON env payload)"
  then obtain requestEnvelope where "NewMessageEnvelopeFromJSON env payload = Inr requestEnvelope"
    by (cases "NewMessageEnvelopeFromJSON env payload") auto
  with commandTopicLevels_short [OF short]
  show "tl (commandRequestHandler requestTimeout env \<lparr>Topic = topic, MessagePayload = payload\<rparr>) =
           [Log (Error ''Failed to parse and construct response topic scheme, expected request topic scheme: '#/<device-name>/<command-name>/<method>''),
            Log (Warn notPublishing)]"
    by (simp add: commandRequestHandler_def Let_def split: sum.split)
qed

theorem C7_witness:
  "Split ''a//b/sensor1/heartbeat/get'' (CHR ''/'') = [''a'', [], ''b''] @ [''sensor1'', ''heartbeat'', ''get''] \<and>
   commandTopicLevels ''a//b/sensor1/heartbeat/get'' = Some (''sensor1'', ''heartbeat'', ''get'') \<and>
   3 \<le> length (Split ''sensor1/heartbeat/get'' (CHR ''/'')) \<and>
   (\<exists>pre d c m. Split ''sensor1/heartbeat/get'' (CHR ''/'') = pre @ [d, c, m]) \<and>
   commandTopicLevels (Join ([''x'', ''y''] @ [''sensor1'', [], ''GET'']) ''/'') = Some (''sensor1'', [], ''GET'') \<and>
   length (Split ''heartbeat/get'' (CHR ''/'')) < 3 \<and>
   commandTopicLevels ''heartbeat/get'' = None \<and>
   tl (commandRequestHandler 5 sampleEnvironment \<lparr>Topic = ''heartbeat/get'', MessagePayload = ''{}''\<rparr>) =
     [Log (Error ''Failed to parse and construct response topic scheme, expected request topic scheme: '#/<device-name>/<command-name>/<method>''),
      Log (Warn notPublishing)]"
proof -
  have h1: "Split ''a//b/sensor1/heartbeat/get'' (CHR ''/'') =
              [''a'', [], ''b''] @ [''sensor1'', ''heartbeat'', ''get'']"
    by simp
  have h2: "3 \<le> length (Split ''sensor1/heartbeat/get'' (CHR ''/''))"
    by simp
  have h3: "\<forall>level \<in> set ([''x'', ''y''] @ [''sensor1'', [], ''GET'']). CHR ''/'' \<notin> set level"
    by simp
  have h4: "length (Split ''heartbeat/get'' (CHR ''/'')) < 3"
    by simp
  have h5: "\<not> isl (NewMessageEnvelopeFromJSON sampleEnvironment ''{}'')"
    by (simp add: sampleEnvironment_def sampleDecode_def)
  from C7_command_topic_levels [of "''a//b/sensor1/heartbeat/get''"] h1
  have c1: "commandTopicLevels ''a//b/sensor1/heartbeat/get'' = Some (''sensor1'', ''heartbeat'', ''get'')"
    by blast
  from C7_command_topic_levels [of "''sensor1/heartbeat/get''"] h2
  have c2: "\<exists>pre d c m. Split ''sensor1/heartbeat/get'' (CHR ''/'') = pre @ [d, c, m]"
    by blast
  from C7_command_topic_levels [of _ "[''x'', ''y'']"] h3
  have c3: "commandTopicLevels (Join ([''x'', ''y''] @ [''sensor1'', [], ''GET'']) ''/'') =
              Some (''sensor1'', [], ''GET'')"
    by blast
  from C7_command_topic_levels [of "''heartbeat/get''"] h4 h5
  have c4: "commandTopicLevels ''heartbeat/get'' = None"
    and c5: "tl (commandRequestHandler 5 sampleEnvironment \<lparr>Topic = ''heartbeat/get'', MessagePayload = ''{}''\<rparr>) =
     [Log (Error ''Failed to parse and construct response topic scheme, expected request topic scheme: '#/<device-name>/<command-name>/<method>''),
      Log (Warn notPublishing)]"
    by blast+
  from h1 h2 h4 c1 c2 c3 c4 c5 show ?thesis
    by (intro conjI)
qed

subsection \<open>The device name of a query\<close>

text \<open>
  Claim C8. When the last level of a query topic is the word of \<open>common_All\<close> in any
  casing (\<open>All\<close>, \<open>all\<close>, \<open>ALL\<close>), the device name the handler computes is the
  constant \<open>common_All\<close> itself, and this is the one device name it hands to the
  command-query collaborator: the collaborator is called once with \<open>common_All\<close> when the
  envelope decodes and a response topic is configured, and is not called otherwise.
\<close>

theorem C8_all_is_normalised:
  assumes "EqualFold (last (Split (Topic message) (CHR ''/''))) common_All"
  shows "queryDeviceName (Topic message) = Some common_All \<and>
         queryCalls (commandQueryHandler env message) =
           (if isl (NewMessageEnvelopeFromJSON env (MessagePayload message)) \<or>
               lookupTopic (Topics (ExternalMQTT (Configuration env))) ExternalCommandQueryResponseTopicKey = []
            then [] else [common_All])"
proof -
  have "queryDeviceName (Topic message) = Some common_All"
    using assms by (simp add: queryDeviceName_eq)
  then show ?thesis
    by (cases "NewMessageEnvelopeFromJSON env (MessagePayload message)")
      (simp_all add: commandQueryHandler_def Let_def queryCalls_publishMessage)
qed

theorem C8_witness:
  "EqualFold (last (Split (Topic \<lparr>Topic = ''query/request/All'', MessagePayload = ''{}''\<rparr>) (CHR ''/''))) common_All \<and>
   EqualFold (last (Split (Topic \<lparr>Topic = ''query/request/all'', MessagePayload = ''{}''\<rparr>) (CHR ''/''))) common_All \<and>
   EqualFold (last (Split (Topic \<lparr>Topic = ''query/request/ALL'', MessagePayload = ''{}''\<rparr>) (CHR ''/''))) common_All \<and>
   queryCalls (commandQueryHandler sampleEnvironment
     \<lparr>Topic = ''query/request/All'', MessagePayload = ''{}''\<rparr>) = [''all''] \<and>
   queryCalls (commandQueryHandler sampleEnvironment
     \<lparr>Topic = ''query/request/all'', MessagePayload = ''{}''\<rparr>) = [''all''] \<and>
   queryCalls (commandQueryHandler sampleEnvironment
     \<lparr>Topic = ''query/request/ALL'', MessagePayload = ''{}''\<rparr>) = [''all'']"
proof -
  let ?m1 = "\<lparr>Topic = ''query/request/All'', MessagePayload = ''{}''\<rparr>"
  let ?m2 = "\<lparr>Topic = ''query/request/all'', MessagePayload = ''{}''\<rparr>"
  let ?m3 = "\<lparr>Topic = ''query/request/ALL'', MessagePayload = ''{}''\<rparr>"
  have h1: "EqualFold (last (Split (Topic ?m1) (CHR ''/''))) common_All"
    and h2: "EqualFold (last (Split (Topic ?m2) (CHR ''/''))) common_All"
    and h3: "EqualFold (last (Split (Topic ?m3) (CHR ''/''))) common_All"
    by code_simp+
  have gates:
    "\<not> isl (NewMessageEnvelopeFromJSON sampleEnvironment ''{}'')"
    "lookupTopic (Topics (ExternalMQTT (Configuration sampleEnvironment)))
       ExternalCommandQueryResponseTopicKey \<noteq> []"
    by code_simp+
  from C8_all_is_normalised [OF h1, of sampleEnvironment]
    C8_all_is_normalised [OF h2, of sampleEnvironment]
    C8_all_is_normalised [OF h3, of sampleEnvironment]
    h1 h2 h3 gates
  show ?thesis by (simp add: common_All_def)
qed

subsection \<open>The response publisher\<close>

text \<open>
  Claim C9. \<open>publishMessage\<close> makes exactly one publish call, with the bytes the
  serializer returned; the error of the serializer has no influence on what it does;
  it does not panic; and when the broker refuses the message, all that follows the publish
  call is one error line in the log.
\<close>

theorem C9_publishMessage_one_attempt:
  "publishCalls (publishMessage env responseTopic qos retain message) =
     [(responseTopic, qos, retain, fst (jsonMarshal env message))] \<and>
   publishMessage (env\<lparr>jsonMarshal := \<lambda>m. (fst (jsonMarshal env m), marshalError)\<rparr>)
       responseTopic qos retain message =
     publishMessage env responseTopic qos retain message \<and>
   Panic \<notin> set (publishMessage env responseTopic qos retain message) \<and>
   (\<forall>err. Publish env responseTopic qos retain (fst (jsonMarshal env message)) = Some err \<longrightarrow>
      publishMessage env responseTopic qos retain message =
        (if ErrorCode message = 1 then [Log (Error (Payload message))] else []) @
        [MarshalCall message,
         PublishCall responseTopic qos retain (fst (jsonMarshal env message)),
         Log (Errorf ''Could not publish to external message broker on topic '%s': %s''
                [Str responseTopic, Str err])])"
  by (simp add: publishMessage_def Let_def split: option.split)

text \<open>A serializer that fails, in front of a broker that is down.\<close>

theorem C9_witness:
  "jsonMarshal sampleBrokerDown sampleRequest = ([], Some ''json: unsupported value'') \<and>
   Publish sampleBrokerDown ''query/response'' 1 False (fst (jsonMarshal sampleBrokerDown sampleRequest)) =
     Some ''not connected'' \<and>
   publishMessage sampleBrokerDown ''query/response'' 1 False sampleRequest =
     [MarshalCall sampleRequest,
      PublishCall ''query/response'' 1 False [],
      Log (Errorf ''Could not publish to external message broker on topic '%s': %s''
             [Str ''query/response'', Str ''not connected''])] \<and>
   publishCalls (publishMessage sampleBrokerDown ''query/response'' 1 False sampleRequest) =
     [(''query/response'', 1, False, [])]"
proof -
  have h1: "jsonMarshal sampleBrokerDown sampleRequest = ([], Some ''json: unsupported value'')"
    by (simp add: sampleBrokerDown_def)
  have h2: "Publish sampleBrokerDown ''query/response'' 1 False
              (fst (jsonMarshal sampleBrokerDown sampleRequest)) = Some ''not connected''"
    by (simp add: sampleBrokerDown_def)
  have h3: "ErrorCode sampleRequest \<noteq> 1"
    by (simp add: sampleRequest_def)
  from C9_publishMessage_one_attempt [of sampleBrokerDown "''query/response''" 1 False sampleRequest]
    h1 h2 h3
  show ?thesis by simp
qed

subsection \<open>The device name of a query is always found\<close>

text \<open>
  Claim C10. For every topic, the empty one and one without separator included, the query
  handler finds a device name: what follows the last separator of the topic, which may be
  empty or the whole topic (replaced by \<open>common_All\<close> when it is that word in any
  casing). The handler never panics on the index, so no topic makes the query path fail:
  past the two checks that come before the topic is read (the envelope decodes, lines 53
  to 58, and a query-response topic is configured, lines 60 to 66), it calls the
  collaborator once, with that name, whatever the topic.
\<close>

theorem C10_query_device_name_total:
  "queryDeviceName (Topic message) =
     Some (if EqualFold (rev (takeWhile (\<lambda>c. c \<noteq> CHR ''/'') (rev (Topic message)))) common_All then common_All
           else rev (takeWhile (\<lambda>c. c \<noteq> CHR ''/'') (rev (Topic message)))) \<and>
   Panic \<notin> set (commandQueryHandler env message) \<and>
   (\<not> isl (NewMessageEnvelopeFromJSON env (MessagePayload message)) \<and>
    lookupTopic (Topics (ExternalMQTT (Configuration env))) ExternalCommandQueryResponseTopicKey \<noteq> [] \<longrightarrow>
      queryCalls (commandQueryHandler env message) =
        [if EqualFold (rev (takeWhile (\<lambda>c. c \<noteq> CHR ''/'') (rev (Topic message)))) common_All then common_All
         else rev (takeWhile (\<lambda>c. c \<noteq> CHR ''/'') (rev (Topic message)))])"
proof -
  have name: "queryDeviceName (Topic message) =
     Some (if EqualFold (rev (takeWhile (\<lambda>c. c \<noteq> CHR ''/'') (rev (Topic message)))) common_All then common_All
           else rev (takeWhile (\<lambda>c. c \<noteq> CHR ''/'') (rev (Topic message))))"
    by (simp only: queryDeviceName_eq last_Split)
  have "Panic \<notin> set (commandQueryHandler env message)"
    by (simp add: commandQueryHandler_def Let_def name Panic_publishMessage split: sum.split)
  moreover have "queryCalls (commandQueryHandler env message) =
        [if EqualFold (rev (takeWhile (\<lambda>c. c \<noteq> CHR ''/'') (rev (Topic message)))) common_All then common_All
         else rev (takeWhile (\<lambda>c. c \<noteq> CHR ''/'') (rev (Topic message)))]"
    if "\<not> isl (NewMessageEnvelopeFromJSON env (MessagePayload message))"
      and "lookupTopic (Topics (ExternalMQTT (Configuration env))) ExternalCommandQueryResponseTopicKey \<noteq> []"
    using that
    by (cases "NewMessageEnvelopeFromJSON env (MessagePayload message)")
      (simp_all add: commandQueryHandler_def Let_def name queryCalls_publishMessage)
  ultimately show ?thesis using name by blast
qed

text \<open>The empty topic, a topic without separator, and a topic that ends in a separator.\<close>

theorem C10_witness:
  "\<not> isl (NewMessageEnvelopeFromJSON sampleEnvironment ''{}'') \<and>
   lookupTopic (Topics (ExternalMQTT (Configuration sampleEnvironment)))
     ExternalCommandQueryResponseTopicKey \<noteq> [] \<and>
   queryCalls (commandQueryHandler sampleEnvironment \<lparr>Topic = [], MessagePayload = ''{}''\<rparr>) = [[]] \<and>
   queryCalls (commandQueryHandler sampleEnvironment \<lparr>Topic = ''sensor1'', MessagePayload = ''{}''\<rparr>) =
     [''sensor1''] \<and>
   queryCalls (commandQueryHandler sampleEnvironment \<lparr>Topic = ''query/request/'', MessagePayload = ''{}''\<rparr>) =
     [[]] \<and>
   queryCalls (commandQueryHandler sampleEnvironment
     \<lparr>Topic = ''query/request/sensor1'', MessagePayload = ''{}''\<rparr>) = [''sensor1'']"
proof -
  have gates:
    "\<not> isl (NewMessageEnvelopeFromJSON sampleEnvironment ''{}'')"
    "lookupTopic (Topics (ExternalMQTT (Configuration sampleEnvironment)))
       ExternalCommandQueryResponseTopicKey \<noteq> []"
    by code_simp+
  have names:
    "\<not> EqualFold [] common_All" "\<not> EqualFold ''sensor1'' common_All"
    by code_simp+
  from C10_query_device_name_total [of "\<lparr>Topic = [], MessagePayload = ''{}''\<rparr>" sampleEnvironment]
    C10_query_device_name_total [of "\<lparr>Topic = ''sensor1'', MessagePayload = ''{}''\<rparr>" sampleEnvironment]
    C10_query_device_name_total [of "\<lparr>Topic = ''query/request/'', MessagePayload = ''{}''\<rparr>" sampleEnvironment]
    C10_query_device_name_total [of "\<lparr>Topic = ''query/request/sensor1'', MessagePayload = ''{}''\<rparr>" sampleEnvironment]
    gates names
  show ?thesis by simp
qed

end
